theory Spec2Isabelle
  imports Complex_Main "HOL-Library.Multiset"
begin

section \<open>MindFit: study and wellness analytics (utils.py, app.py, models.py)\<close>

text \<open>
  A shallow embedding of the analytics functions of \<^verbatim>\<open>utils.py\<close> and of the
  \<^verbatim>\<open>new_study_session\<close> handler of \<^verbatim>\<open>app.py\<close>.

  Numbers: Python's floats (and the decimals a database driver returns) are idealised as
  exact rationals, and \<^verbatim>\<open>round\<close> as rounding of the exact value, ties to even.
  The comparisons \<^verbatim>\<open>avg > 60\<close> and \<^verbatim>\<open>avg > 7\<close> are exact under this
  idealisation, because the quotient of an integer sum by a count of at most 5 is never
  within a rounding error of the threshold without being equal to it.

  Time: a \<^verbatim>\<open>datetime\<close> is a count of microseconds since \<^verbatim>\<open>datetime.min\<close>
  (0001-01-01 00:00), \<^verbatim>\<open>func.date\<close> is the day number, and the text
  \<^verbatim>\<open>strftime('%Y-%m-%d')\<close> of a date is represented by that day number (the rendering is
  injective, so dictionary lookups by the text and by the day number agree).
  \<^verbatim>\<open>datetime.utcnow()\<close> is the explicit argument \<open>now\<close>. Python's \<^verbatim>\<open>datetime\<close> ends with
  the year 9999 and a \<^verbatim>\<open>timedelta\<close> holds at most 999999999 days; arithmetic that leaves
  either range raises \<^verbatim>\<open>OverflowError\<close>.

  Names that the modules never bind: \<^verbatim>\<open>utils.py\<close> uses a global \<^verbatim>\<open>engine\<close> and
  \<^verbatim>\<open>app.py\<close> calls \<^verbatim>\<open>analyze_sentiment\<close> without importing it. The store behind
  \<^verbatim>\<open>engine\<close> is an argument of \<open>get_study_analytics\<close>; the binding of
  \<^verbatim>\<open>analyze_sentiment\<close> in \<^verbatim>\<open>app.py\<close> is an optional argument of \<open>new_study_session\<close>,
  \<open>None\<close> being the source as it stands.
\<close>

subsection \<open>Python errors and helpers\<close>

datatype py_error =
  ZeroDivisionError | IndexError | ClassifierError
  | OverflowError | ValueError | NameError | UnboundLocalError

definition then_err :: "py_error + 'a \<Rightarrow> ('a \<Rightarrow> py_error + 'b) \<Rightarrow> py_error + 'b" where
  "then_err r f = (case r of Inl e \<Rightarrow> Inl e | Inr v \<Rightarrow> f v)"

fun sequence_err :: "(py_error + 'a) list \<Rightarrow> py_error + 'a list" where
  \<comment> \<open>A list comprehension whose elements may raise: the first raise ends it.\<close>
  "sequence_err [] = Inr []"
| "sequence_err (r # rs) =
     then_err r (\<lambda>v. then_err (sequence_err rs) (\<lambda>vs. Inr (v # vs)))"

definition py_truediv :: "rat \<Rightarrow> rat \<Rightarrow> py_error + rat" where
  \<comment> \<open>\<^verbatim>\<open>a / b\<close>, which raises on a zero divisor.\<close>
  "py_truediv a b = (if b = 0 then Inl ZeroDivisionError else Inr (a / b))"

definition py_round :: "rat \<Rightarrow> nat \<Rightarrow> rat" where
  \<comment> \<open>\<^verbatim>\<open>round(x, ndigits)\<close>: to the nearest multiple of \<open>10 ^ - ndigits\<close>, ties to even.\<close>
  "py_round x ndigits =
     (let s = 10 ^ ndigits;
          y = x * s;
          f = \<lfloor>y\<rfloor>;
          d = y - of_int f;
          n = (if d < 1 / 2 then f else if 1 / 2 < d then f + 1
               else if even f then f else f + 1)
      in of_int n / s)"

subsection \<open>models.py\<close>

type_synonym datetime = int

definition usec_per_day :: int where
  "usec_per_day = 86400000000"

definition timedelta :: "int \<Rightarrow> int" where
  \<comment> \<open>The length of \<open>k\<close> days in microseconds: the value of \<^verbatim>\<open>timedelta(days=k)\<close> when
      \<open>k\<close> is in range, as the constant 7 of the scorer is; see \<open>timedelta_days\<close>.\<close>
  "timedelta k = k * usec_per_day"

definition timedelta_days :: "int \<Rightarrow> py_error + int" where
  \<comment> \<open>\<^verbatim>\<open>timedelta(days=k)\<close>: at most 999999999 days in magnitude.\<close>
  "timedelta_days k =
     (if - 999999999 \<le> k \<and> k \<le> 999999999 then Inr (timedelta k) else Inl OverflowError)"

definition datetime_max :: int where
  \<comment> \<open>One microsecond past \<^verbatim>\<open>datetime.max\<close>: \<^verbatim>\<open>date.max.toordinal()\<close> is 3652059.\<close>
  "datetime_max = 3652059 * usec_per_day"

definition valid_datetime :: "datetime \<Rightarrow> bool" where
  "valid_datetime t = (0 \<le> t \<and> t < datetime_max)"

definition datetime_plus :: "datetime \<Rightarrow> int \<Rightarrow> py_error + datetime" where
  \<comment> \<open>\<^verbatim>\<open>t + delta\<close>\<close>
  "datetime_plus t delta = (if valid_datetime (t + delta) then Inr (t + delta) else Inl OverflowError)"

definition datetime_minus :: "datetime \<Rightarrow> int \<Rightarrow> py_error + datetime" where
  \<comment> \<open>\<^verbatim>\<open>t - delta\<close>\<close>
  "datetime_minus t delta = (if valid_datetime (t - delta) then Inr (t - delta) else Inl OverflowError)"

definition date :: "datetime \<Rightarrow> int" where
  \<comment> \<open>\<^verbatim>\<open>func.date(t)\<close>, \<^verbatim>\<open>t.strftime('%Y-%m-%d')\<close>: the calendar day of a timestamp.\<close>
  "date t = t div usec_per_day"

record StudySession =
  user_id :: int
  subject :: string
  duration :: int
  sentiment_score :: "rat option"
  created_at :: datetime

record WellnessEntry =
  wellness_user_id :: int
  stress_level :: int
  energy_level :: int
  wellness_created_at :: datetime

record Session =
  study_sessions :: "StudySession list"
  wellness_entries :: "WellnessEntry list"

subsection \<open>analyze_sentiment (utils.py 18-34) and new_study_session (app.py 203-245)\<close>

text \<open>
  The classifier is an external capability. \<open>sentiment_analyzer\<close> is \<open>None\<close> when the import
  of the pipeline failed; otherwise a call either raises or returns a list of
  (label, score) results, of which the code reads element 0.
\<close>

datatype classifier_outcome = Raises | Returns "(string \<times> rat) list"

type_synonym classifier = "string \<Rightarrow> classifier_outcome"

record sentiment =
  label :: string
  score :: rat

definition NEUTRAL :: sentiment where
  "NEUTRAL = \<lparr>label = ''NEUTRAL'', score = 1 / 2\<rparr>"

definition classify :: "classifier \<Rightarrow> string \<Rightarrow> py_error + sentiment" where
  \<comment> \<open>The body of the \<^verbatim>\<open>try\<close> block (utils.py 27-31).\<close>
  "classify f text =
     (case f text of
        Raises \<Rightarrow> Inl ClassifierError
      | Returns [] \<Rightarrow> Inl IndexError
      | Returns ((l, c) # _) \<Rightarrow>
          Inr \<lparr>label = l, score = (if l = ''POSITIVE'' then c else 1 - c)\<rparr>)"

definition analyze_sentiment_run ::
  "classifier option \<Rightarrow> string option \<Rightarrow> sentiment \<times> nat" where
  \<comment> \<open>The returned dictionary, and how many times the classifier was invoked.\<close>
  "analyze_sentiment_run sentiment_analyzer text =
     (case (text, sentiment_analyzer) of
        (None, _) \<Rightarrow> (NEUTRAL, 0)
      | (Some t, None) \<Rightarrow> (NEUTRAL, 0)
      | (Some t, Some f) \<Rightarrow>
          (if t = [] then (NEUTRAL, 0)
           else (case classify f t of Inl e \<Rightarrow> (NEUTRAL, 1) | Inr r \<Rightarrow> (r, 1))))"

definition analyze_sentiment :: "classifier option \<Rightarrow> string option \<Rightarrow> sentiment" where
  "analyze_sentiment sentiment_analyzer text = fst (analyze_sentiment_run sentiment_analyzer text)"

definition classifier_calls :: "classifier option \<Rightarrow> string option \<Rightarrow> nat" where
  "classifier_calls sentiment_analyzer text = snd (analyze_sentiment_run sentiment_analyzer text)"

definition fold_sentiment :: "sentiment \<Rightarrow> rat" where
  \<comment> \<open>app.py 228: \<^verbatim>\<open>sentiment['score'] if sentiment['label'] == 'POSITIVE' else -sentiment['score']\<close>\<close>
  "fold_sentiment s = (if label s = ''POSITIVE'' then score s else - score s)"

datatype write_result = Invalid | Saved rat

definition session_user_id :: "py_error + int" where
  \<comment> \<open>app.py 222, \<^verbatim>\<open>session['user_id']\<close>: the assignment \<^verbatim>\<open>session = StudySession(...)\<close> of
      line 221 makes \<^verbatim>\<open>session\<close> a local variable of the handler, and this read of it comes
      before that assignment has happened.\<close>
  "session_user_id = Inl UnboundLocalError"

definition new_study_session ::
  "(string \<Rightarrow> sentiment) option \<Rightarrow> string \<Rightarrow> int option \<Rightarrow> string \<Rightarrow> py_error + write_result" where
  \<comment> \<open>The \<^verbatim>\<open>try\<close> block of the POST branch (app.py 206-235), for the stripped form fields
      \<open>form_subject\<close> and \<open>form_notes\<close> (empty when absent) and the result
      \<open>form_duration\<close> of \<^verbatim>\<open>int(...)\<close>
      (\<open>None\<close> when it raises). \<open>Inl\<close>: the exception that reaches the handlers, which roll
      back; \<open>Inr Invalid\<close>: the validation redirect; \<open>Inr (Saved x)\<close>: a committed row with
      \<^verbatim>\<open>sentiment_score\<close> \<open>x\<close>. The keyword arguments of \<^verbatim>\<open>StudySession(...)\<close> are evaluated in
      order, \<^verbatim>\<open>user_id\<close> first and \<^verbatim>\<open>sentiment_score\<close> last.\<close>
  "new_study_session analyze_sentiment_name form_subject form_duration form_notes =
     (case form_duration of
        None \<Rightarrow> Inl ValueError
      | Some d \<Rightarrow>
          if form_subject = [] \<or> d \<le> 0 then Inr Invalid
          else
            then_err
              (if form_notes \<noteq> [] then
                 (case analyze_sentiment_name of
                    None \<Rightarrow> Inl NameError
                  | Some f \<Rightarrow> Inr (f form_notes))
               else Inr NEUTRAL)
              (\<lambda>sentiment.
                 then_err session_user_id
                   (\<lambda>user. Inr (Saved (fold_sentiment sentiment)))))"


subsection \<open>Queries against the record store\<close>


definition sql_avg :: "rat option list \<Rightarrow> rat option" where
  "sql_avg xs =
     (let vs = map the (filter (\<lambda>x. x \<noteq> None) xs)
      in if vs = [] then None else Some (sum_list vs / of_nat (length vs)))"

definition sql_avg_int :: "int list \<Rightarrow> rat option" where
  "sql_avg_int xs = sql_avg (map (\<lambda>x. Some (of_int x)) xs)"

definition or_default :: "rat option \<Rightarrow> rat \<Rightarrow> rat" where
  \<comment> \<open>\<^verbatim>\<open>x or d\<close>: \<open>d\<close> when \<open>x\<close> is \<^verbatim>\<open>None\<close> or zero.\<close>
  "or_default x d = (case x of None \<Rightarrow> d | Some v \<Rightarrow> if v = 0 then d else v)"

definition most_recent :: "nat \<Rightarrow> ('a \<Rightarrow> int) \<Rightarrow> 'a list \<Rightarrow> 'a list \<Rightarrow> bool" where
  \<comment> \<open>\<open>ys\<close> are the \<open>n\<close> most recent of \<open>rows\<close> (all of them when there are fewer), newest
      first: no row left out is newer than a row taken.\<close>
  "most_recent n created rows ys \<longleftrightarrow>
     length ys = min n (length rows) \<and>
     mset ys \<subseteq># mset rows \<and>
     sorted_wrt (\<lambda>a b. created b \<le> created a) ys \<and>
     (\<forall>old\<in>set_mset (mset rows - mset ys). \<forall>y\<in>set ys. created old \<le> created y)"

subsection \<open>generate_study_recommendations (utils.py 63-121)\<close>

record Recommendation =
  type :: string
  title :: string
  message :: string
  priority :: string

definition break_recommendation :: Recommendation where
  "break_recommendation =
     \<lparr>type = ''break'', title = ''Take Regular Breaks'',
      message = ''Your study sessions are quite long. Consider taking a 5-10 minute break every 50 minutes to maintain focus.'',
      priority = ''high''\<rparr>"

definition high_stress_recommendation :: Recommendation where
  "high_stress_recommendation =
     \<lparr>type = ''wellness'', title = ''High Stress Detected'',
      message = ''Your stress levels have been high. Try some relaxation techniques or take a short break.'',
      priority = ''high''\<rparr>"

definition general_tips :: "Recommendation list" where
  "general_tips =
     [\<lparr>type = ''study'', title = ''Use Active Recall'',
       message = ''Try testing yourself on the material instead of just re-reading it. This improves retention.'',
       priority = ''medium''\<rparr>,
      \<lparr>type = ''study'', title = ''Space Out Your Study Sessions'',
       message = ''Studying a little bit each day is more effective than cramming. Try the spacing effect!'',
       priority = ''medium''\<rparr>]"

definition recent_sessions :: "Session \<Rightarrow> int \<Rightarrow> StudySession list" where
  \<comment> \<open>utils.py 70-72: the user's rows, newest first, at most 5.\<close>
  "recent_sessions session uid =
     take 5 (sort_key (\<lambda>s. - created_at s)
       (filter (\<lambda>s. user_id s = uid) (study_sessions session)))"

definition recent_wellness :: "Session \<Rightarrow> int \<Rightarrow> WellnessEntry list" where
  \<comment> \<open>utils.py 75-77\<close>
  "recent_wellness session uid =
     take 5 (sort_key (\<lambda>w. - wellness_created_at w)
       (filter (\<lambda>w. wellness_user_id w = uid) (wellness_entries session)))"

definition mean_duration :: "StudySession list \<Rightarrow> py_error + rat" where
  \<comment> \<open>\<^verbatim>\<open>sum(s.duration for s in recent_sessions) / len(recent_sessions)\<close>\<close>
  "mean_duration rs = py_truediv (of_int (sum_list (map duration rs))) (of_nat (length rs))"

definition mean_stress :: "WellnessEntry list \<Rightarrow> py_error + rat" where
  \<comment> \<open>\<^verbatim>\<open>sum(w.stress_level for w in recent_wellness) / len(recent_wellness)\<close>\<close>
  "mean_stress ws = py_truediv (of_int (sum_list (map stress_level ws))) (of_nat (length ws))"

definition analyze_study_patterns ::
  "StudySession list \<Rightarrow> Recommendation list \<Rightarrow> py_error + Recommendation list" where
  \<comment> \<open>utils.py 80-89\<close>
  "analyze_study_patterns rs recommendations =
     (if rs \<noteq> [] then
        then_err (mean_duration rs) (\<lambda>avg_duration.
          Inr (if 60 < avg_duration then recommendations @ [break_recommendation]
               else recommendations))
      else Inr recommendations)"

definition analyze_mood_patterns ::
  "WellnessEntry list \<Rightarrow> Recommendation list \<Rightarrow> py_error + Recommendation list" where
  \<comment> \<open>utils.py 92-101\<close>
  "analyze_mood_patterns ws recommendations =
     (if ws \<noteq> [] then
        then_err (mean_stress ws) (\<lambda>avg_stress.
          Inr (if 7 < avg_stress then recommendations @ [high_stress_recommendation]
               else recommendations))
      else Inr recommendations)"

definition add_general_tips :: "Recommendation list \<Rightarrow> Recommendation list" where
  \<comment> \<open>utils.py 104-119\<close>
  "add_general_tips recommendations =
     (if recommendations = [] then recommendations @ general_tips else recommendations)"

definition generate_study_recommendations ::
  "int \<Rightarrow> Session \<Rightarrow> py_error + Recommendation list" where
  "generate_study_recommendations uid session =
     then_err (analyze_study_patterns (recent_sessions session uid) []) (\<lambda>recommendations.
       then_err (analyze_mood_patterns (recent_wellness session uid) recommendations)
         (\<lambda>recommendations. Inr (add_general_tips recommendations)))"

definition long_sessions_rule :: "int \<Rightarrow> Session \<Rightarrow> bool" where
  \<comment> \<open>The long-session rule fires: there is a study session and the mean duration of the
      up-to-5 most recent ones exceeds 60 minutes.\<close>
  "long_sessions_rule uid session =
     (let rs = recent_sessions session uid
      in rs \<noteq> [] \<and>
         60 < (of_int (sum_list (map duration rs)) :: rat) / of_nat (length rs))"

definition high_stress_rule :: "int \<Rightarrow> Session \<Rightarrow> bool" where
  \<comment> \<open>The high-stress rule fires: there is a wellness entry and the mean stress level of
      the up-to-5 most recent ones exceeds 7.\<close>
  "high_stress_rule uid session =
     (let ws = recent_wellness session uid
      in ws \<noteq> [] \<and>
         7 < (of_int (sum_list (map stress_level ws)) :: rat) / of_nat (length ws))"

subsection \<open>calculate_productivity_score (utils.py 123-166)\<close>

definition week_ago :: "datetime \<Rightarrow> datetime" where
  \<comment> \<open>utils.py 128. The clock reading \<^verbatim>\<open>utcnow()\<close> is more than a week after
      \<^verbatim>\<open>datetime.min\<close>, so this subtraction stays in range.\<close>
  "week_ago now = now - timedelta 7"

definition week_sessions :: "int \<Rightarrow> Session \<Rightarrow> datetime \<Rightarrow> StudySession list" where
  \<comment> \<open>\<^verbatim>\<open>StudySession.user_id == user_id, StudySession.created_at >= week_ago\<close>\<close>
  "week_sessions uid session now =
     filter (\<lambda>s. user_id s = uid \<and> week_ago now \<le> created_at s) (study_sessions session)"





definition study_days :: "int \<Rightarrow> Session \<Rightarrow> datetime \<Rightarrow> rat" where
  \<comment> \<open>utils.py 143-148: \<^verbatim>\<open>COUNT(DISTINCT date(created_at))\<close>, then \<^verbatim>\<open>or 0\<close>\<close>
  "study_days uid session now =
     or_default
       (Some (of_nat (length (remdups (map (\<lambda>s. date (created_at s))
          (week_sessions uid session now)))))) 0"

definition consistency_score :: "int \<Rightarrow> Session \<Rightarrow> datetime \<Rightarrow> rat" where
  \<comment> \<open>utils.py 150\<close>
  "consistency_score uid session now = (study_days uid session now / 7) * 30"





subsection \<open>get_study_analytics (utils.py 168-235)\<close>

record analytics =
  dates :: "int list"
  study_hours :: "rat list"
  stress_levels :: "rat option list"
  energy_levels :: "rat option list"
  subject_labels :: "string list"
  subject_data :: "rat list"
  total_study_hours :: rat
  avg_stress :: "rat option"
  avg_energy :: "rat option"

definition window_sessions ::
  "Session \<Rightarrow> int \<Rightarrow> datetime \<Rightarrow> datetime \<Rightarrow> StudySession list" where
  "window_sessions engine uid start_date end_date =
     filter (\<lambda>s. user_id s = uid \<and> start_date \<le> created_at s \<and> created_at s \<le> end_date)
       (study_sessions engine)"

definition window_wellness ::
  "Session \<Rightarrow> int \<Rightarrow> datetime \<Rightarrow> datetime \<Rightarrow> WellnessEntry list" where
  "window_wellness engine uid start_date end_date =
     filter (\<lambda>w. wellness_user_id w = uid \<and> start_date \<le> wellness_created_at w
                 \<and> wellness_created_at w \<le> end_date)
       (wellness_entries engine)"

definition daily_data ::
  "Session \<Rightarrow> int \<Rightarrow> datetime \<Rightarrow> datetime \<Rightarrow> (int \<times> int \<times> rat option) list" where
  \<comment> \<open>utils.py 177-185: rows (date, total_duration, avg_sentiment), ordered by date\<close>
  "daily_data engine uid start_date end_date =
     (let rows = window_sessions engine uid start_date end_date
      in map (\<lambda>d. let g = filter (\<lambda>s. date (created_at s) = d) rows
                   in (d, sum_list (map duration g), sql_avg (map sentiment_score g)))
           (sort (remdups (map (\<lambda>s. date (created_at s)) rows))))"

definition mood_data ::
  "Session \<Rightarrow> int \<Rightarrow> datetime \<Rightarrow> datetime \<Rightarrow> (int \<times> rat option \<times> rat option) list" where
  \<comment> \<open>utils.py 188-196: rows (date, avg_stress, avg_energy), ordered by date\<close>
  "mood_data engine uid start_date end_date =
     (let rows = window_wellness engine uid start_date end_date
      in map (\<lambda>d. let g = filter (\<lambda>w. date (wellness_created_at w) = d) rows
                   in (d, sql_avg_int (map stress_level g), sql_avg_int (map energy_level g)))
           (sort (remdups (map (\<lambda>w. date (wellness_created_at w)) rows))))"

definition subjects :: "Session \<Rightarrow> int \<Rightarrow> datetime \<Rightarrow> datetime \<Rightarrow> (string \<times> int) list" where
  \<comment> \<open>utils.py 199-206: rows (subject, total_duration), largest total first\<close>
  "subjects engine uid start_date end_date =
     (let rows = window_sessions engine uid start_date end_date
      in sort_key (\<lambda>(sub, total). - total)
           (map (\<lambda>sub. (sub, sum_list (map duration (filter (\<lambda>s. subject s = sub) rows))))
              (remdups (map subject rows))))"

definition truthy :: "rat option \<Rightarrow> bool" where
  \<comment> \<open>Python's truth value of a number or \<^verbatim>\<open>None\<close>\<close>
  "truthy x = (case x of None \<Rightarrow> False | Some v \<Rightarrow> v \<noteq> 0)"

definition series_average :: "rat option list \<Rightarrow> py_error + rat option" where
  \<comment> \<open>utils.py 233-234:
      \<^verbatim>\<open>round(sum(filter(None, xs)) / len([s for s in xs if s is not None]), 1) if any(xs) else None\<close>\<close>
  "series_average xs =
     (if list_ex truthy xs then
        then_err (py_truediv (sum_list (map the (filter truthy xs)))
                    (of_nat (length (filter (\<lambda>s. s \<noteq> None) xs))))
          (\<lambda>q. Inr (Some (py_round q 1)))
      else Inr None)"

definition window_date :: "datetime \<Rightarrow> nat \<Rightarrow> py_error + int" where
  \<comment> \<open>utils.py 209: \<^verbatim>\<open>(start_date + timedelta(days=i)).strftime('%Y-%m-%d')\<close>\<close>
  "window_date start_date i =
     then_err (timedelta_days (int i)) (\<lambda>delta.
       then_err (datetime_plus start_date delta) (\<lambda>t. Inr (date t)))"

definition format_chart_data ::
  "Session \<Rightarrow> int \<Rightarrow> datetime \<Rightarrow> datetime \<Rightarrow> int list \<Rightarrow> py_error + analytics" where
  \<comment> \<open>utils.py 177-206 and 210-235: the three queries and the result built for the dates
      \<open>ds\<close> of line 209.\<close>
  "format_chart_data engine uid start_date end_date ds =
     (let daily = daily_data engine uid start_date end_date;
          mood = mood_data engine uid start_date end_date;
          subs = subjects engine uid start_date end_date;
          study_data = map_of (map (\<lambda>(d, total, sent). (d, (of_int total :: rat) / 60)) daily);
          mood_data_dict = map_of (map (\<lambda>(d, st, en). (d, st)) mood);
          energy_data_dict = map_of (map (\<lambda>(d, st, en). (d, en)) mood);
          hours = map (\<lambda>d. case study_data d of None \<Rightarrow> 0 | Some h \<Rightarrow> h) ds;
          stress = map (\<lambda>d. case mood_data_dict d of None \<Rightarrow> None | Some v \<Rightarrow> v) ds;
          energy = map (\<lambda>d. case energy_data_dict d of None \<Rightarrow> None | Some v \<Rightarrow> v) ds
      in then_err (series_average stress) (\<lambda>avg_s.
           then_err (series_average energy) (\<lambda>avg_e.
             Inr \<lparr>dates = ds, study_hours = hours, stress_levels = stress,
                  energy_levels = energy,
                  subject_labels = map fst subs,
                  subject_data = map (\<lambda>(sub, total). py_round (of_int total / 60) 1) subs,
                  total_study_hours = py_round (sum_list hours) 1,
                  avg_stress = avg_s, avg_energy = avg_e\<rparr>)))"

definition get_study_analytics ::
  "Session \<Rightarrow> datetime \<Rightarrow> int \<Rightarrow> int \<Rightarrow> py_error + analytics" where
  \<comment> \<open>\<open>engine\<close> is the store behind the global \<^verbatim>\<open>engine\<close>, which utils.py never binds;
      \<open>now\<close> is \<^verbatim>\<open>datetime.utcnow()\<close>. Line 173 raises \<^verbatim>\<open>OverflowError\<close> when \<open>days - 1\<close> is
      too large for a \<^verbatim>\<open>timedelta\<close> or the start of the window is not a \<^verbatim>\<open>datetime\<close>.\<close>
  "get_study_analytics engine now uid days =
     (let end_date = now
      in then_err (timedelta_days (days - 1)) (\<lambda>delta.
           then_err (datetime_minus end_date delta) (\<lambda>start_date.
             then_err (sequence_err (map (window_date start_date) [0..<nat days])) (\<lambda>ds.
               format_chart_data engine uid start_date end_date ds))))"

definition non_null_mean :: "rat option list \<Rightarrow> rat" where
  \<comment> \<open>The mean of the non-null entries of a series (meaningful when there is one).\<close>
  "non_null_mean xs =
     sum_list (map the (filter (\<lambda>s. s \<noteq> None) xs)) / of_nat (length (filter (\<lambda>s. s \<noteq> None) xs))"

subsection \<open>Example stores\<close>

definition wellness_row :: "int \<Rightarrow> int \<Rightarrow> int \<Rightarrow> datetime \<Rightarrow> WellnessEntry" where
  "wellness_row uid stress energy t =
     \<lparr>wellness_user_id = uid, stress_level = stress, energy_level = energy, wellness_created_at = t\<rparr>"

definition study_row :: "int \<Rightarrow> string \<Rightarrow> int \<Rightarrow> datetime \<Rightarrow> StudySession" where
  "study_row uid sub minutes t =
     \<lparr>user_id = uid, subject = sub, duration = minutes, sentiment_score = None, created_at = t\<rparr>"

definition store_high_stress :: Session where
  \<comment> \<open>The five newest entries of user 1 have levels 8, 9, 8, 9, 8 (newest first); three
      older entries have level 1. The table is not in time order.\<close>
  "store_high_stress =
     \<lparr>study_sessions = [],
      wellness_entries = [wellness_row 1 9 5 500, wellness_row 1 1 5 100, wellness_row 1 9 5 700,
                          wellness_row 1 1 5 200, wellness_row 1 8 5 400, wellness_row 1 8 5 600,
                          wellness_row 1 1 5 300, wellness_row 1 8 5 800]\<rparr>"

definition store_stress_seven :: Session where
  \<comment> \<open>The five newest entries of user 1 have level 7; three older entries have level 10.\<close>
  "store_stress_seven =
     \<lparr>study_sessions = [],
      wellness_entries = [wellness_row 1 10 5 100, wellness_row 1 7 5 500, wellness_row 1 10 5 200,
                          wellness_row 1 7 5 400, wellness_row 1 10 5 300, wellness_row 1 7 5 600,
                          wellness_row 1 7 5 800, wellness_row 1 7 5 700]\<rparr>"

definition store_recent_long :: Session where
  \<comment> \<open>The five newest sessions of user 1 last 120 minutes, five older ones 10 minutes.\<close>
  "store_recent_long =
     \<lparr>study_sessions =
        [study_row 1 ''History'' 10 100, study_row 1 ''History'' 10 200,
         study_row 1 ''History'' 10 300, study_row 1 ''History'' 10 400,
         study_row 1 ''History'' 10 500, study_row 1 ''Physics'' 120 600,
         study_row 1 ''Physics'' 120 700, study_row 1 ''Physics'' 120 800,
         study_row 1 ''Physics'' 120 900, study_row 1 ''Physics'' 120 1000],
      wellness_entries = []\<rparr>"

definition store_recent_short :: Session where
  \<comment> \<open>The five newest sessions of user 1 last 10 minutes, five older ones 120 minutes.\<close>
  "store_recent_short =
     \<lparr>study_sessions =
        [study_row 1 ''Physics'' 120 100, study_row 1 ''Physics'' 120 200,
         study_row 1 ''Physics'' 120 300, study_row 1 ''Physics'' 120 400,
         study_row 1 ''Physics'' 120 500, study_row 1 ''History'' 10 600,
         study_row 1 ''History'' 10 700, study_row 1 ''History'' 10 800,
         study_row 1 ''History'' 10 900, study_row 1 ''History'' 10 1000],
      wellness_entries = []\<rparr>"

definition store_long_and_stressed :: Session where
  "store_long_and_stressed =
     \<lparr>study_sessions = [study_row 1 ''Mathematics'' 90 100],
      wellness_entries = [wellness_row 1 9 5 200]\<rparr>"

definition store_eight_days :: Session where
  "store_eight_days =
     \<lparr>study_sessions =
        [study_row 1 ''Mathematics'' 30 (0 * usec_per_day + 64800000000),
         study_row 1 ''Mathematics'' 30 (1 * usec_per_day + 64800000000),
         study_row 1 ''Mathematics'' 30 (2 * usec_per_day + 64800000000),
         study_row 1 ''Mathematics'' 30 (3 * usec_per_day + 64800000000),
         study_row 1 ''Mathematics'' 30 (4 * usec_per_day + 64800000000),
         study_row 1 ''Mathematics'' 30 (5 * usec_per_day + 64800000000),
         study_row 1 ''Mathematics'' 30 (6 * usec_per_day + 64800000000),
         study_row 1 ''Mathematics'' 30 (7 * usec_per_day + 32400000000)],
      wellness_entries = []\<rparr>"

definition noon_of_day_seven :: datetime where
  "noon_of_day_seven = 7 * usec_per_day + 43200000000"

definition store_stale_other_user :: Session where
  "store_stale_other_user =
     \<lparr>study_sessions = [study_row 2 ''Physics'' 120 100],
      wellness_entries = [wellness_row 2 9 2 200]\<rparr>"


definition store_four_days :: Session where
  "store_four_days =
     \<lparr>study_sessions =
        [study_row 1 ''Mathematics'' 90 (10 * usec_per_day + 64800000000),
         study_row 1 ''History'' 30 (12 * usec_per_day + 32400000000),
         study_row 2 ''Physics'' 60 (11 * usec_per_day + 32400000000)],
      wellness_entries =
        [wellness_row 1 1 5 (10 * usec_per_day + 64800000000),
         wellness_row 1 1 5 (11 * usec_per_day + 64800000000),
         wellness_row 1 2 6 (12 * usec_per_day + 32400000000),
         wellness_row 2 9 2 (9 * usec_per_day + 64800000000)]\<rparr>"

definition noon_of_day_twelve :: datetime where
  "noon_of_day_twelve = 12 * usec_per_day + 43200000000"

definition noon_2026_11_03 :: datetime where
  \<comment> \<open>2026-11-03 12:00: \<^verbatim>\<open>date(2026, 11, 3).toordinal()\<close> is 739923.\<close>
  "noon_2026_11_03 = 739922 * usec_per_day + 43200000000"

section \<open>Sentiment adaptation\<close>





lemma fold_sentiment_range:
  "0 \<le> score s \<Longrightarrow> score s \<le> 1 \<Longrightarrow> - 1 \<le> fold_sentiment s \<and> fold_sentiment s \<le> 1"
  by (simp add: fold_sentiment_def)

lemma fold_sentiment_NEUTRAL: "fold_sentiment NEUTRAL = - (1 / 2)"
  by (simp add: fold_sentiment_def NEUTRAL_def)




text \<open>
  C4. The claim is that empty text, absent text and an unavailable classifier all score
  exactly 0.0, never with an error and without a classifier call. \<^verbatim>\<open>analyze_sentiment\<close>
  does answer these three cases with its neutral dictionary and without a classifier call.
  The write path, which would turn it into the signed score, raises instead: with empty
  notes the read of \<^verbatim>\<open>session['user_id']\<close> in line 222 raises \<^verbatim>\<open>UnboundLocalError\<close>,
  whether or not \<^verbatim>\<open>analyze_sentiment\<close> is bound, and no score is stored. (The expression
  of line 228 takes the neutral dictionary to -0.5, see \<open>fold_sentiment_NEUTRAL\<close>.)
\<close>

theorem empty_notes_write_path_raises:
  "new_study_session binding ''Mathematics'' (Some 45) [] = Inl UnboundLocalError
   \<and> analyze_sentiment sentiment_analyzer None = NEUTRAL
   \<and> analyze_sentiment sentiment_analyzer (Some []) = NEUTRAL
   \<and> analyze_sentiment None text = NEUTRAL
   \<and> classifier_calls sentiment_analyzer None = 0
   \<and> classifier_calls sentiment_analyzer (Some []) = 0
   \<and> classifier_calls None text = 0"
  by (simp add: new_study_session_def then_err_def session_user_id_def analyze_sentiment_def
      classifier_calls_def analyze_sentiment_run_def split: option.splits)

text \<open>
  C5. The claim is that a label other than POSITIVE is stored as minus the classifier's
  confidence. \<^verbatim>\<open>analyze_sentiment\<close> does not pass that confidence on: for such a label it
  returns \<open>1 - c\<close> as the score, against its docstring, which calls the score the
  confidence. A NEGATIVE result of confidence 0.9 comes back with score 0.1.
\<close>

theorem negative_label_score_not_confidence:
  "analyze_sentiment (Some (\<lambda>t. Returns [(''NEGATIVE'', 9 / 10)])) (Some ''bad day'')
     = \<lparr>label = ''NEGATIVE'', score = 1 / 10\<rparr>
   \<and> analyze_sentiment (Some (\<lambda>t. Returns [(''NEGATIVE'', c)])) (Some ''bad day'')
     = \<lparr>label = ''NEGATIVE'', score = 1 - c\<rparr>
   \<and> analyze_sentiment (Some (\<lambda>t. Returns [(''POSITIVE'', c)])) (Some ''bad day'')
     = \<lparr>label = ''POSITIVE'', score = c\<rparr>"
  by (simp add: analyze_sentiment_def analyze_sentiment_run_def classify_def)

section \<open>Recommendation engine\<close>

lemma mean_duration_nonempty:
  "rs \<noteq> [] \<Longrightarrow> mean_duration rs = Inr (of_int (sum_list (map duration rs)) / of_nat (length rs))"
  by (simp add: mean_duration_def py_truediv_def)

lemma mean_stress_nonempty:
  "ws \<noteq> [] \<Longrightarrow> mean_stress ws = Inr (of_int (sum_list (map stress_level ws)) / of_nat (length ws))"
  by (simp add: mean_stress_def py_truediv_def)

lemma analyze_study_patterns_eq:
  "analyze_study_patterns (recent_sessions session uid) recs =
     Inr (if long_sessions_rule uid session then recs @ [break_recommendation] else recs)"
  by (simp add: analyze_study_patterns_def long_sessions_rule_def Let_def then_err_def
      mean_duration_nonempty)

lemma analyze_mood_patterns_eq:
  "analyze_mood_patterns (recent_wellness session uid) recs =
     Inr (if high_stress_rule uid session then recs @ [high_stress_recommendation] else recs)"
  by (simp add: analyze_mood_patterns_def high_stress_rule_def Let_def then_err_def
      mean_stress_nonempty)

lemma generate_study_recommendations_eq:
  "generate_study_recommendations uid session =
     Inr (if long_sessions_rule uid session
          then (if high_stress_rule uid session
                then [break_recommendation, high_stress_recommendation]
                else [break_recommendation])
          else (if high_stress_rule uid session then [high_stress_recommendation]
                else general_tips))"
  by (simp add: generate_study_recommendations_def analyze_study_patterns_eq
      analyze_mood_patterns_eq then_err_def add_general_tips_def)

lemma rule_recommendations_not_tips:
  "break_recommendation \<notin> set general_tips" "high_stress_recommendation \<notin> set general_tips"
  "break_recommendation \<noteq> high_stress_recommendation"
  by (simp_all add: break_recommendation_def high_stress_recommendation_def general_tips_def)

lemma general_tips_shape:
  "length general_tips = 2" "general_tips \<noteq> []"
  "general_tips \<noteq> [break_recommendation]" "general_tips \<noteq> [high_stress_recommendation]"
  "general_tips \<noteq> [break_recommendation, high_stress_recommendation]"
  by (simp_all add: break_recommendation_def high_stress_recommendation_def general_tips_def)

lemma sort_key_empty_iff: "(sort_key f xs = []) = (xs = [])"
proof -
  have "length (sort_key f xs) = length xs" by simp
  then show ?thesis by (metis length_0_conv)
qed

lemma recent_sessions_empty_iff:
  "recent_sessions session uid = [] \<longleftrightarrow> (\<forall>s\<in>set (study_sessions session). user_id s \<noteq> uid)"
  by (simp add: recent_sessions_def sort_key_empty_iff filter_empty_conv)

lemma recent_wellness_empty_iff:
  "recent_wellness session uid = [] \<longleftrightarrow> (\<forall>w\<in>set (wellness_entries session). wellness_user_id w \<noteq> uid)"
  by (simp add: recent_wellness_def sort_key_empty_iff filter_empty_conv)

lemma recent_sessions_long_and_stressed:
  "map duration (recent_sessions store_long_and_stressed 1) = [90]"
  by (simp add: recent_sessions_def store_long_and_stressed_def study_row_def)

lemma recent_wellness_long_and_stressed:
  "map stress_level (recent_wellness store_long_and_stressed 1) = [9]"
  by (simp add: recent_wellness_def store_long_and_stressed_def wellness_row_def)

lemma take_sort_most_recent:
  "most_recent n created rows (take n (sort_key (\<lambda>r. - created r) rows))"
proof -
  let ?ss = "sort_key (\<lambda>r. - created r) rows"
  have split: "mset rows = mset (take n ?ss) + mset (drop n ?ss)"
  proof -
    have "mset (take n ?ss) + mset (drop n ?ss) = mset (take n ?ss @ drop n ?ss)"
      by (simp only: mset_append)
    also have "\<dots> = mset ?ss"
      by (simp only: append_take_drop_id)
    also have "\<dots> = mset rows"
      by simp
    finally show ?thesis by simp
  qed
  have len: "length (take n ?ss) = min n (length rows)"
    by simp
  have sub: "mset (take n ?ss) \<subseteq># mset rows"
    by (subst split) simp
  have rest: "mset rows - mset (take n ?ss) = mset (drop n ?ss)"
    by (subst split) simp
  have srt: "sorted (map (\<lambda>r. - created r) (take n ?ss) @ map (\<lambda>r. - created r) (drop n ?ss))"
    by (simp only: map_append [symmetric] append_take_drop_id sorted_sort_key)
  from srt have front: "sorted (map (\<lambda>r. - created r) (take n ?ss))"
    unfolding sorted_append by blast
  from srt have cross: "\<forall>a\<in>set (map (\<lambda>r. - created r) (take n ?ss)).
                    \<forall>b\<in>set (map (\<lambda>r. - created r) (drop n ?ss)). a \<le> b"
    unfolding sorted_append by blast
  from front have desc: "sorted_wrt (\<lambda>a b. created b \<le> created a) (take n ?ss)"
    by (simp add: sorted_map)
  have older: "\<forall>old\<in>set_mset (mset rows - mset (take n ?ss)). \<forall>y\<in>set (take n ?ss).
                 created old \<le> created y"
  proof (intro ballI)
    fix old y
    assume "old \<in> set_mset (mset rows - mset (take n ?ss))" and y: "y \<in> set (take n ?ss)"
    then have old: "old \<in> set (drop n ?ss)" by (simp add: rest)
    from old y have "- created y \<in> set (map (\<lambda>r. - created r) (take n ?ss))"
      and "- created old \<in> set (map (\<lambda>r. - created r) (drop n ?ss))"
      by (simp_all del: set_map add: image_iff set_map) blast+
    with cross have "- created y \<le> - created old" by blast
    then show "created old \<le> created y" by simp
  qed
  from len sub desc older show ?thesis
    unfolding most_recent_def by simp
qed

lemma recent_sessions_most_recent:
  "most_recent 5 created_at (filter (\<lambda>s. user_id s = uid) (study_sessions session))
     (recent_sessions session uid)"
  unfolding recent_sessions_def by (rule take_sort_most_recent)

lemma recent_wellness_most_recent:
  "most_recent 5 wellness_created_at
     (filter (\<lambda>w. wellness_user_id w = uid) (wellness_entries session))
     (recent_wellness session uid)"
  unfolding recent_wellness_def by (rule take_sort_most_recent)


lemma recent_wellness_high_stress:
  "map (\<lambda>w. (wellness_created_at w, stress_level w)) (recent_wellness store_high_stress 1)
     = [(800, 8), (700, 9), (600, 8), (500, 9), (400, 8)]"
  by (simp add: recent_wellness_def store_high_stress_def wellness_row_def)

lemma recent_wellness_stress_seven:
  "map (\<lambda>w. (wellness_created_at w, stress_level w)) (recent_wellness store_stress_seven 1)
     = [(800, 7), (700, 7), (600, 7), (500, 7), (400, 7)]"
  by (simp add: recent_wellness_def store_stress_seven_def wellness_row_def)

lemma recent_sessions_recent_long:
  "map (\<lambda>s. (created_at s, duration s)) (recent_sessions store_recent_long 1)
     = [(1000, 120), (900, 120), (800, 120), (700, 120), (600, 120)]"
  by (simp add: recent_sessions_def store_recent_long_def study_row_def)

lemma recent_sessions_recent_short:
  "map (\<lambda>s. (created_at s, duration s)) (recent_sessions store_recent_short 1)
     = [(1000, 10), (900, 10), (800, 10), (700, 10), (600, 10)]"
  by (simp add: recent_sessions_def store_recent_short_def study_row_def)

lemma map_snd_pairs: "map g xs = map snd (map (\<lambda>x. (f x, g x)) xs)"
  by (simp add: o_def)

text \<open>
  C7. \<^verbatim>\<open>generate_study_recommendations\<close> always returns (its two divisions are guarded by
  the emptiness tests). It returns exactly the two fixed generic tips, in their fixed
  order and each of priority medium, if and only if neither the long-session rule nor the
  high-stress rule fires; a fallback tip occurs in the result in that case only. A user
  without study sessions and without wellness entries is such a case. The rules read the
  5 most recent study sessions and the 5 most recent wellness entries of the user.
\<close>

theorem recommend_fallback:
  "(\<exists>r. generate_study_recommendations uid session = Inr r)
   \<and> (generate_study_recommendations uid session = Inr general_tips
        \<longleftrightarrow> \<not> long_sessions_rule uid session \<and> \<not> high_stress_rule uid session)
   \<and> ((\<exists>r. generate_study_recommendations uid session = Inr r \<and> set r \<inter> set general_tips \<noteq> {})
        \<longleftrightarrow> \<not> long_sessions_rule uid session \<and> \<not> high_stress_rule uid session)
   \<and> ((\<forall>s\<in>set (study_sessions session). user_id s \<noteq> uid)
        \<and> (\<forall>w\<in>set (wellness_entries session). wellness_user_id w \<noteq> uid)
        \<longrightarrow> generate_study_recommendations uid session = Inr general_tips)
   \<and> length general_tips = 2
   \<and> map priority general_tips = [''medium'', ''medium'']
   \<and> map title general_tips = [''Use Active Recall'', ''Space Out Your Study Sessions'']
   \<and> most_recent 5 created_at (filter (\<lambda>s. user_id s = uid) (study_sessions session))
        (recent_sessions session uid)
   \<and> most_recent 5 wellness_created_at
        (filter (\<lambda>w. wellness_user_id w = uid) (wellness_entries session))
        (recent_wellness session uid)"
proof -
  let ?g = "generate_study_recommendations uid session"
  let ?neither = "\<not> long_sessions_rule uid session \<and> \<not> high_stress_rule uid session"
  have total: "\<exists>r. ?g = Inr r"
    by (simp add: generate_study_recommendations_eq)
  have exact: "?g = Inr general_tips \<longleftrightarrow> ?neither"
    using general_tips_shape by (simp add: generate_study_recommendations_eq)
  have member: "(\<exists>r. ?g = Inr r \<and> set r \<inter> set general_tips \<noteq> {}) \<longleftrightarrow> ?neither"
    using rule_recommendations_not_tips general_tips_shape(2)
    by (simp add: generate_study_recommendations_eq)
  have empty: "(\<forall>s\<in>set (study_sessions session). user_id s \<noteq> uid)
        \<and> (\<forall>w\<in>set (wellness_entries session). wellness_user_id w \<noteq> uid)
        \<longrightarrow> ?g = Inr general_tips"
  proof
    assume "(\<forall>s\<in>set (study_sessions session). user_id s \<noteq> uid)
        \<and> (\<forall>w\<in>set (wellness_entries session). wellness_user_id w \<noteq> uid)"
    then have "recent_sessions session uid = []" "recent_wellness session uid = []"
      by (simp_all add: recent_sessions_empty_iff recent_wellness_empty_iff)
    then have ?neither
      by (simp add: long_sessions_rule_def high_stress_rule_def)
    with exact show "?g = Inr general_tips" by simp
  qed
  have tips: "length general_tips = 2 \<and> map priority general_tips = [''medium'', ''medium'']
     \<and> map title general_tips = [''Use Active Recall'', ''Space Out Your Study Sessions'']"
    by (simp add: general_tips_def)
  from total exact member empty tips recent_sessions_most_recent [of uid session]
    recent_wellness_most_recent [of uid session]
  show ?thesis by simp
qed

theorem recommend_fallback_witness:
  "list_all (\<lambda>s. user_id s \<noteq> 1) (study_sessions store_stale_other_user)
   \<and> list_all (\<lambda>w. wellness_user_id w \<noteq> 1) (wellness_entries store_stale_other_user)
   \<and> generate_study_recommendations 1 store_stale_other_user = Inr general_tips
   \<and> generate_study_recommendations 1 \<lparr>study_sessions = [], wellness_entries = []\<rparr>
       = Inr general_tips
   \<and> map duration (recent_sessions store_recent_short 1) = [10, 10, 10, 10, 10]
   \<and> generate_study_recommendations 1 store_recent_short = Inr general_tips
   \<and> map duration (recent_sessions store_recent_long 1) = [120, 120, 120, 120, 120]
   \<and> generate_study_recommendations 1 store_recent_long \<noteq> Inr general_tips"
proof -
  have h: "(\<forall>s\<in>set (study_sessions store_stale_other_user). user_id s \<noteq> 1)
        \<and> (\<forall>w\<in>set (wellness_entries store_stale_other_user). wellness_user_id w \<noteq> 1)"
    by (simp add: store_stale_other_user_def study_row_def wellness_row_def)
  from recommend_fallback [of 1 store_stale_other_user] h
  have a: "generate_study_recommendations 1 store_stale_other_user = Inr general_tips"
    by blast
  from recommend_fallback [of 1 "\<lparr>study_sessions = [], wellness_entries = []\<rparr>"]
  have b: "generate_study_recommendations 1 \<lparr>study_sessions = [], wellness_entries = []\<rparr>
       = Inr general_tips"
    by simp
  have ds: "map duration (recent_sessions store_recent_short 1) = [10, 10, 10, 10, 10]"
    by (subst map_snd_pairs [of duration _ created_at]) (simp only: recent_sessions_recent_short, simp)
  have dl: "map duration (recent_sessions store_recent_long 1) = [120, 120, 120, 120, 120]"
    by (subst map_snd_pairs [of duration _ created_at]) (simp only: recent_sessions_recent_long, simp)
  have ls: "length (recent_sessions store_recent_short 1) = 5"
    using arg_cong [OF ds, of length] by simp
  have ll: "length (recent_sessions store_recent_long 1) = 5"
    using arg_cong [OF dl, of length] by simp
  have ws: "recent_wellness store_recent_short 1 = []"
    by (simp add: recent_wellness_def store_recent_short_def)
  have wl: "recent_wellness store_recent_long 1 = []"
    by (simp add: recent_wellness_def store_recent_long_def)
  have ns: "\<not> long_sessions_rule 1 store_recent_short \<and> \<not> high_stress_rule 1 store_recent_short"
    by (simp add: long_sessions_rule_def high_stress_rule_def Let_def ds ls ws)
  have nl: "long_sessions_rule 1 store_recent_long"
    using ll by (auto simp: long_sessions_rule_def Let_def dl)
  from recommend_fallback [of 1 store_recent_short] ns
  have c: "generate_study_recommendations 1 store_recent_short = Inr general_tips"
    by blast
  from recommend_fallback [of 1 store_recent_long] nl
  have d: "generate_study_recommendations 1 store_recent_long \<noteq> Inr general_tips"
    by blast
  from h a b ds c dl d show ?thesis by (simp add: list_all_iff)
qed

text \<open>
  C8. The high-stress recommendation (priority high) is in the result if and only if the
  user has at least one wellness entry and the mean stress level of the up-to-5 most
  recent entries is strictly greater than 7. On the two examples of the specification,
  five most recent levels 8, 9, 8, 9, 8 trigger it and five most recent entries of level 7
  (mean exactly 7) do not, whatever older entries say.
\<close>

theorem high_stress_strict_threshold:
  "((\<exists>r. generate_study_recommendations uid session = Inr r \<and> high_stress_recommendation \<in> set r)
      \<longleftrightarrow> (\<exists>w\<in>set (wellness_entries session). wellness_user_id w = uid)
           \<and> 7 < (of_int (sum_list (map stress_level (recent_wellness session uid))) :: rat)
                   / of_nat (length (recent_wellness session uid)))
   \<and> priority high_stress_recommendation = ''high''
   \<and> most_recent 5 wellness_created_at
        (filter (\<lambda>w. wellness_user_id w = uid) (wellness_entries session))
        (recent_wellness session uid)"
proof -
  have "(\<exists>r. generate_study_recommendations uid session = Inr r \<and> high_stress_recommendation \<in> set r)
        \<longleftrightarrow> high_stress_rule uid session"
    using rule_recommendations_not_tips
    by (auto simp: generate_study_recommendations_eq)
  moreover have "high_stress_rule uid session
      \<longleftrightarrow> (\<exists>w\<in>set (wellness_entries session). wellness_user_id w = uid)
           \<and> 7 < (of_int (sum_list (map stress_level (recent_wellness session uid))) :: rat)
                   / of_nat (length (recent_wellness session uid))"
    using recent_wellness_empty_iff [of session uid]
    by (auto simp: high_stress_rule_def Let_def)
  moreover have "priority high_stress_recommendation = ''high''"
    by (simp add: high_stress_recommendation_def)
  ultimately show ?thesis
    using recent_wellness_most_recent [of uid session] by simp
qed

theorem high_stress_strict_threshold_witness:
  "map stress_level (recent_wellness store_high_stress 1) = [8, 9, 8, 9, 8]
   \<and> (\<exists>r. generate_study_recommendations 1 store_high_stress = Inr r \<and> high_stress_recommendation \<in> set r)
   \<and> map stress_level (recent_wellness store_stress_seven 1) = [7, 7, 7, 7, 7]
   \<and> \<not> (\<exists>r. generate_study_recommendations 1 store_stress_seven = Inr r \<and> high_stress_recommendation \<in> set r)
   \<and> (of_int (sum_list (map stress_level (recent_wellness store_stress_seven 1))) :: rat)
        / of_nat (length (recent_wellness store_stress_seven 1)) = 7"
proof -
  have s1: "map stress_level (recent_wellness store_high_stress 1) = [8, 9, 8, 9, 8]"
    by (subst map_snd_pairs [of stress_level _ wellness_created_at])
      (simp only: recent_wellness_high_stress, simp)
  have s2: "map stress_level (recent_wellness store_stress_seven 1) = [7, 7, 7, 7, 7]"
    by (subst map_snd_pairs [of stress_level _ wellness_created_at])
      (simp only: recent_wellness_stress_seven, simp)
  have l1: "length (recent_wellness store_high_stress 1) = 5"
    using arg_cong [OF s1, of length] by simp
  have l2: "length (recent_wellness store_stress_seven 1) = 5"
    using arg_cong [OF s2, of length] by simp
  have e1: "\<exists>w\<in>set (wellness_entries store_high_stress). wellness_user_id w = 1"
    by (simp add: store_high_stress_def wellness_row_def)
  have m1: "7 < (of_int (sum_list (map stress_level (recent_wellness store_high_stress 1))) :: rat)
                   / of_nat (length (recent_wellness store_high_stress 1))"
    by (simp add: s1 l1)
  have m2: "(of_int (sum_list (map stress_level (recent_wellness store_stress_seven 1))) :: rat)
        / of_nat (length (recent_wellness store_stress_seven 1)) = 7"
    by (simp add: s2 l2)
  from high_stress_strict_threshold [of 1 store_high_stress] e1 m1
  have a: "\<exists>r. generate_study_recommendations 1 store_high_stress = Inr r \<and> high_stress_recommendation \<in> set r"
    by simp
  from high_stress_strict_threshold [of 1 store_stress_seven] m2
  have b: "\<not> (\<exists>r. generate_study_recommendations 1 store_stress_seven = Inr r \<and> high_stress_recommendation \<in> set r)"
    by simp
  from s1 a s2 b m2 show ?thesis by simp
qed

text \<open>
  C10. The result is one of four lists: the break recommendation alone, the high-stress
  recommendation alone, the break recommendation followed by the high-stress one, or the
  two fallback tips. Its length is 1 or 2, and rule recommendations never occur together
  with fallback tips. When both rules fire the break recommendation comes first.
\<close>

theorem recommend_length:
  "\<exists>r. generate_study_recommendations uid session = Inr r
     \<and> (r = [break_recommendation] \<or> r = [high_stress_recommendation]
        \<or> r = [break_recommendation, high_stress_recommendation] \<or> r = general_tips)
     \<and> (length r = 1 \<or> length r = 2)
     \<and> (set r \<inter> set general_tips = {} \<or> set r \<inter> {break_recommendation, high_stress_recommendation} = {})
     \<and> (long_sessions_rule uid session \<and> high_stress_rule uid session
          \<longrightarrow> r = [break_recommendation, high_stress_recommendation])"
  using rule_recommendations_not_tips general_tips_shape(1)
  by (simp add: generate_study_recommendations_eq)

theorem recommend_length_witness:
  "long_sessions_rule 1 store_long_and_stressed \<and> high_stress_rule 1 store_long_and_stressed
   \<and> generate_study_recommendations 1 store_long_and_stressed
       = Inr [break_recommendation, high_stress_recommendation]"
proof -
  have l1: "length (recent_sessions store_long_and_stressed 1) = 1"
    using arg_cong [OF recent_sessions_long_and_stressed, of length] by simp
  have l2: "length (recent_wellness store_long_and_stressed 1) = 1"
    using arg_cong [OF recent_wellness_long_and_stressed, of length] by simp
  have a: "long_sessions_rule 1 store_long_and_stressed"
    using l1 by (auto simp: long_sessions_rule_def Let_def recent_sessions_long_and_stressed)
  have b: "high_stress_rule 1 store_long_and_stressed"
    using l2 by (auto simp: high_stress_rule_def Let_def recent_wellness_long_and_stressed)
  from recommend_length [of 1 store_long_and_stressed] a b show ?thesis by auto
qed

section \<open>Productivity scorer\<close>

lemma week_sessions_eight_days:
  "map (\<lambda>s. date (created_at s)) (week_sessions 1 store_eight_days noon_of_day_seven)
     = [0, 1, 2, 3, 4, 5, 6, 7]"
  by (simp add: week_sessions_def week_ago_def timedelta_def store_eight_days_def study_row_def
      noon_of_day_seven_def usec_per_day_def date_def)





text \<open>
  C3. The claim is that the number \<open>d\<close> of distinct study days in the lookback window is at
  most 7, so that the consistency sub-score \<open>d / 7 * 30\<close> never exceeds 30. The window starts
  at \<^verbatim>\<open>utcnow() - timedelta(days=7)\<close>, a moment within a day, so it reaches into 8 calendar
  days; nothing clamps \<open>d\<close> or the sub-score. With one session on each of those 8 days, all
  inside the last 7 times 24 hours, the code computes \<open>d = 8\<close> and a consistency sub-score
  of 240/7, above the 30 points that the code's own comment gives as the maximum.
\<close>

theorem consistency_exceeds_thirty:
  "study_days 1 store_eight_days noon_of_day_seven = 8
   \<and> consistency_score 1 store_eight_days noon_of_day_seven = 240 / 7
   \<and> 30 < consistency_score 1 store_eight_days noon_of_day_seven
   \<and> list_all (\<lambda>s. noon_of_day_seven - 7 * usec_per_day < created_at s
                      \<and> created_at s < noon_of_day_seven)
        (study_sessions store_eight_days)"
proof -
  have d: "study_days 1 store_eight_days noon_of_day_seven = 8"
    by (simp add: study_days_def week_sessions_eight_days or_default_def)
  have w: "\<forall>s\<in>set (study_sessions store_eight_days).
         noon_of_day_seven - 7 * usec_per_day < created_at s \<and> created_at s < noon_of_day_seven"
    by (simp add: store_eight_days_def study_row_def noon_of_day_seven_def usec_per_day_def)
  from d w show ?thesis by (simp add: consistency_score_def list_all_iff)
qed



section \<open>Daily aggregator\<close>

lemma usec_per_day_nonzero: "usec_per_day \<noteq> 0"
  by (simp add: usec_per_day_def)

lemma date_plus_timedelta: "date (t + timedelta k) = date t + k"
  by (simp add: date_def timedelta_def usec_per_day_nonzero)

lemma date_window_start: "date (now - timedelta (days - 1) + timedelta k) = date now - (days - 1) + k"
proof -
  have e: "now - timedelta (days - 1) + timedelta k = now + timedelta (k - (days - 1))"
    by (simp add: timedelta_def algebra_simps)
  show ?thesis by (subst e) (simp add: date_plus_timedelta)
qed

lemma window_dates_upto:
  assumes "1 \<le> days"
  shows "map (\<lambda>i. date (now - timedelta (days - 1) + timedelta (int i))) [0..<nat days]
         = [date now - (days - 1) .. date now]"
proof (rule nth_equalityI)
  show "length (map (\<lambda>i. date (now - timedelta (days - 1) + timedelta (int i))) [0..<nat days])
        = length [date now - (days - 1) .. date now]"
    using assms by simp
next
  fix i
  assume "i < length (map (\<lambda>i. date (now - timedelta (days - 1) + timedelta (int i))) [0..<nat days])"
  then have i: "i < nat days" by simp
  then have "date now - (days - 1) + int i \<le> date now" by linarith
  then have "[date now - (days - 1) .. date now] ! i = date now - (days - 1) + int i"
    by (rule nth_upto)
  with i show "map (\<lambda>i. date (now - timedelta (days - 1) + timedelta (int i))) [0..<nat days] ! i
        = [date now - (days - 1) .. date now] ! i"
    by (simp add: date_window_start)
qed

lemma truthy_sum: "sum_list (map the (filter truthy xs)) = sum_list (map the (filter (\<lambda>s. s \<noteq> None) xs))"
  by (induction xs) (auto simp: truthy_def split: option.splits)

lemma truthy_non_null: "list_ex truthy xs \<Longrightarrow> filter (\<lambda>s. s \<noteq> None) xs \<noteq> []"
  by (induction xs) (auto simp: truthy_def split: option.splits)

lemma series_average_eq:
  "series_average xs =
     Inr (if list_ex truthy xs then Some (py_round (non_null_mean xs) 1) else None)"
  using truthy_non_null [of xs]
  by (simp add: series_average_def py_truediv_def then_err_def non_null_mean_def truthy_sum)

lemma format_chart_data_fields:
  obtains r where "format_chart_data engine uid a b ds = Inr r"
    and "dates r = ds"
    and "study_hours r =
           map (\<lambda>d. case map_of (map (\<lambda>(d, total, sent). (d, (of_int total :: rat) / 60))
                       (daily_data engine uid a b)) d
                     of None \<Rightarrow> 0 | Some h \<Rightarrow> h) ds"
    and "stress_levels r =
           map (\<lambda>d. case map_of (map (\<lambda>(d, st, en). (d, st)) (mood_data engine uid a b)) d
                     of None \<Rightarrow> None | Some v \<Rightarrow> v) ds"
    and "energy_levels r =
           map (\<lambda>d. case map_of (map (\<lambda>(d, st, en). (d, en)) (mood_data engine uid a b)) d
                     of None \<Rightarrow> None | Some v \<Rightarrow> v) ds"
    and "avg_stress r = (if list_ex truthy (stress_levels r)
                         then Some (py_round (non_null_mean (stress_levels r)) 1) else None)"
    and "avg_energy r = (if list_ex truthy (energy_levels r)
                         then Some (py_round (non_null_mean (energy_levels r)) 1) else None)"
  by (simp add: format_chart_data_def Let_def series_average_eq then_err_def)

lemma sequence_err_map_Inr:
  "\<forall>x\<in>set xs. f x = Inr (g x) \<Longrightarrow> sequence_err (map f xs) = Inr (map g xs)"
  by (induction xs) (simp_all add: then_err_def)

lemma timedelta_days_in_range:
  "- 999999999 \<le> k \<Longrightarrow> k \<le> 999999999 \<Longrightarrow> timedelta_days k = Inr (timedelta k)"
  by (simp add: timedelta_days_def)

lemma window_in_range:
  assumes "1 \<le> days" and "valid_datetime now" and "timedelta (days - 1) \<le> now"
  shows "days - 1 \<le> 3652058" and "valid_datetime (now - timedelta (days - 1))"
    and "int i < days \<Longrightarrow> valid_datetime (now - timedelta (days - 1) + timedelta (int i))"
  using assms
  by (simp_all add: valid_datetime_def datetime_max_def timedelta_def usec_per_day_def)

lemma window_date_in_range:
  assumes "1 \<le> days" and "valid_datetime now" and "timedelta (days - 1) \<le> now"
    and "int i < days"
  shows "window_date (now - timedelta (days - 1)) i
           = Inr (date (now - timedelta (days - 1) + timedelta (int i)))"
proof -
  from window_in_range(1) [OF assms(1-3)] assms(4) have "int i \<le> 999999999" by simp
  then have "timedelta_days (int i) = Inr (timedelta (int i))"
    by (simp add: timedelta_days_in_range)
  moreover from window_in_range(3) [OF assms]
  have "datetime_plus (now - timedelta (days - 1)) (timedelta (int i))
          = Inr (now - timedelta (days - 1) + timedelta (int i))"
    by (simp add: datetime_plus_def)
  ultimately show ?thesis
    by (simp add: window_date_def then_err_def)
qed

lemma get_study_analytics_in_range:
  assumes "1 \<le> days" and "valid_datetime now" and "timedelta (days - 1) \<le> now"
  shows "get_study_analytics engine now uid days
           = format_chart_data engine uid (now - timedelta (days - 1)) now
               (map (\<lambda>i. date (now - timedelta (days - 1) + timedelta (int i))) [0..<nat days])"
proof -
  from window_in_range(1) [OF assms] assms(1)
  have td: "timedelta_days (days - 1) = Inr (timedelta (days - 1))"
    by (simp add: timedelta_days_in_range)
  from window_in_range(2) [OF assms]
  have dm: "datetime_minus now (timedelta (days - 1)) = Inr (now - timedelta (days - 1))"
    by (simp add: datetime_minus_def)
  have "\<forall>i\<in>set [0..<nat days]. window_date (now - timedelta (days - 1)) i
           = Inr (date (now - timedelta (days - 1) + timedelta (int i)))"
    using window_date_in_range [OF assms] by simp
  then have sq: "sequence_err (map (window_date (now - timedelta (days - 1))) [0..<nat days])
      = Inr (map (\<lambda>i. date (now - timedelta (days - 1) + timedelta (int i))) [0..<nat days])"
    by (rule sequence_err_map_Inr)
  show ?thesis
    by (simp add: get_study_analytics_def Let_def td dm sq then_err_def)
qed

lemma get_study_analytics_overflow:
  assumes "now < timedelta (days - 1)"
  shows "get_study_analytics engine now uid days = Inl OverflowError"
proof (cases "- 999999999 \<le> days - 1 \<and> days - 1 \<le> 999999999")
  case True
  then have td: "timedelta_days (days - 1) = Inr (timedelta (days - 1))"
    by (simp add: timedelta_days_in_range)
  from assms have "\<not> valid_datetime (now - timedelta (days - 1))"
    by (simp add: valid_datetime_def)
  then have "datetime_minus now (timedelta (days - 1)) = Inl OverflowError"
    by (simp add: datetime_minus_def)
  with td show ?thesis
    by (simp add: get_study_analytics_def Let_def then_err_def)
next
  case False
  then have "timedelta_days (days - 1) = Inl OverflowError"
    by (simp add: timedelta_days_def)
  then show ?thesis
    by (simp add: get_study_analytics_def Let_def then_err_def)
qed

lemma get_study_analytics_result:
  assumes "get_study_analytics engine now uid days = Inr r"
  shows "\<exists>ds. format_chart_data engine uid (now - timedelta (days - 1)) now ds = Inr r"
  using assms
  by (auto simp: get_study_analytics_def Let_def then_err_def timedelta_days_def
      datetime_minus_def split: if_splits sum.splits)

lemma daily_data_keys:
  "fst ` set (daily_data engine uid a b) = (\<lambda>s. date (created_at s)) ` set (window_sessions engine uid a b)"
  by (simp add: daily_data_def Let_def image_image)

lemma mood_data_keys:
  "fst ` set (mood_data engine uid a b) = (\<lambda>w. date (wellness_created_at w)) ` set (window_wellness engine uid a b)"
  by (simp add: mood_data_def Let_def image_image)

lemma study_lookup_None:
  assumes "\<forall>s\<in>set (study_sessions engine). user_id s = uid \<longrightarrow> date (created_at s) \<noteq> d"
  shows "map_of (map (\<lambda>(d, total, sent). (d, (of_int total :: rat) / 60)) (daily_data engine uid a b)) d = None"
proof -
  have "d \<notin> (\<lambda>s. date (created_at s)) ` set (window_sessions engine uid a b)"
    using assms by (auto simp: window_sessions_def)
  then have "d \<notin> fst ` set (daily_data engine uid a b)"
    by (simp only: daily_data_keys not_False_eq_True)
  moreover have "fst ` set (map (\<lambda>(d, total, sent). (d, (of_int total :: rat) / 60)) (daily_data engine uid a b))
      = fst ` set (daily_data engine uid a b)"
    by (auto simp: image_iff split: prod.splits) force+
  ultimately show ?thesis by (simp only: map_of_eq_None_iff not_False_eq_True)
qed


lemma mood_lookup_None:
  assumes "\<forall>w\<in>set (wellness_entries engine). wellness_user_id w = uid \<longrightarrow> date (wellness_created_at w) \<noteq> d"
  shows "map_of (map (\<lambda>(d, st, en). (d, st)) (mood_data engine uid a b)) d = None"
    and "map_of (map (\<lambda>(d, st, en). (d, en)) (mood_data engine uid a b)) d = None"
proof -
  have "d \<notin> (\<lambda>w. date (wellness_created_at w)) ` set (window_wellness engine uid a b)"
    using assms by (auto simp: window_wellness_def)
  then have k: "d \<notin> fst ` set (mood_data engine uid a b)"
    by (simp only: mood_data_keys not_False_eq_True)
  have "fst ` set (map (\<lambda>(d, st, en). (d, st)) (mood_data engine uid a b))
      = fst ` set (mood_data engine uid a b)"
    by (auto simp: image_iff split: prod.splits) force+
  with k show "map_of (map (\<lambda>(d, st, en). (d, st)) (mood_data engine uid a b)) d = None"
    by (simp only: map_of_eq_None_iff not_False_eq_True)
  have "fst ` set (map (\<lambda>(d, st, en). (d, en)) (mood_data engine uid a b))
      = fst ` set (mood_data engine uid a b)"
    by (auto simp: image_iff split: prod.splits) force+
  with k show "map_of (map (\<lambda>(d, st, en). (d, en)) (mood_data engine uid a b)) d = None"
    by (simp only: map_of_eq_None_iff not_False_eq_True)
qed

lemma four_days_run:
  "get_study_analytics store_four_days noon_of_day_twelve 1 4 =
     Inr \<lparr>dates = [9, 10, 11, 12], study_hours = [0, 3 / 2, 0, 1 / 2],
          stress_levels = [None, Some 1, Some 1, Some 2],
          energy_levels = [None, Some 5, Some 5, Some 6],
          subject_labels = [''Mathematics'', ''History''], subject_data = [3 / 2, 1 / 2],
          total_study_hours = 2, avg_stress = Some (13 / 10), avg_energy = Some (53 / 10)\<rparr>"
  by code_simp

lemma sum_list_ge_length:
  "\<forall>x\<in>set xs. 1 \<le> x \<Longrightarrow> int (length xs) \<le> sum_list xs"
  by (induction xs) auto

lemma sql_avg_int_eq:
  "sql_avg_int xs = (if xs = [] then None else Some (of_int (sum_list xs) / of_nat (length xs)))"
proof -
  have "map the (filter (\<lambda>x. x \<noteq> None) (map (\<lambda>x. Some (rat_of_int x)) xs)) = map rat_of_int xs"
    by (induction xs) auto
  moreover have "sum_list (map rat_of_int xs) = of_int (sum_list xs)"
    by (induction xs) auto
  ultimately show ?thesis
    by (simp add: sql_avg_int_def sql_avg_def Let_def o_def)
qed

lemma sql_avg_int_ge_one:
  assumes "sql_avg_int xs = Some v" and "\<forall>x\<in>set xs. 1 \<le> x"
  shows "1 \<le> v"
proof -
  from assms(1) have ne: "xs \<noteq> []" and v: "v = of_int (sum_list xs) / of_nat (length xs)"
    by (auto simp: sql_avg_int_eq split: if_splits)
  from ne have pos: "0 < (of_nat (length xs) :: rat)" by simp
  from sum_list_ge_length [OF assms(2)]
  have "(of_nat (length xs) :: rat) \<le> of_int (sum_list xs)"
    by (metis of_int_le_iff of_int_of_nat_eq)
  with pos show ?thesis unfolding v by (simp add: le_divide_eq)
qed

lemma mood_data_rows:
  assumes "(d, st, en) \<in> set (mood_data engine uid a b)"
  shows "\<exists>g. set g \<subseteq> set (wellness_entries engine)
           \<and> st = sql_avg_int (map stress_level g) \<and> en = sql_avg_int (map energy_level g)"
proof -
  let ?rows = "window_wellness engine uid a b"
  let ?g = "filter (\<lambda>w. date (wellness_created_at w) = d) ?rows"
  from assms have "st = sql_avg_int (map stress_level ?g)" "en = sql_avg_int (map energy_level ?g)"
    by (auto simp: mood_data_def Let_def)
  moreover have "set ?g \<subseteq> set (wellness_entries engine)"
    by (auto simp: window_wellness_def)
  ultimately show ?thesis by blast
qed

lemma stress_lookup_ok:
  assumes "\<forall>w\<in>set (wellness_entries engine). 1 \<le> stress_level w"
    and "map_of (map (\<lambda>(d, st, en). (d, st)) (mood_data engine uid a b)) d = Some x"
  shows "x = None \<or> (\<exists>v. x = Some v \<and> 1 \<le> v)"
proof -
  from assms(2) have "(d, x) \<in> set (map (\<lambda>(d, st, en). (d, st)) (mood_data engine uid a b))"
    by (rule map_of_SomeD)
  then obtain en where "(d, x, en) \<in> set (mood_data engine uid a b)"
    by auto
  from mood_data_rows [OF this] obtain g where g: "set g \<subseteq> set (wellness_entries engine)"
    and x: "x = sql_avg_int (map stress_level g)" by blast
  from g assms(1) have "\<forall>y\<in>set (map stress_level g). 1 \<le> y" by auto
  with x show ?thesis using sql_avg_int_ge_one [of "map stress_level g"] by (cases x) auto
qed

lemma energy_lookup_ok:
  assumes "\<forall>w\<in>set (wellness_entries engine). 1 \<le> energy_level w"
    and "map_of (map (\<lambda>(d, st, en). (d, en)) (mood_data engine uid a b)) d = Some x"
  shows "x = None \<or> (\<exists>v. x = Some v \<and> 1 \<le> v)"
proof -
  from assms(2) have "(d, x) \<in> set (map (\<lambda>(d, st, en). (d, en)) (mood_data engine uid a b))"
    by (rule map_of_SomeD)
  then obtain st where "(d, st, x) \<in> set (mood_data engine uid a b)"
    by auto
  from mood_data_rows [OF this] obtain g where g: "set g \<subseteq> set (wellness_entries engine)"
    and x: "x = sql_avg_int (map energy_level g)" by blast
  from g assms(1) have "\<forall>y\<in>set (map energy_level g). 1 \<le> y" by auto
  with x show ?thesis using sql_avg_int_ge_one [of "map energy_level g"] by (cases x) auto
qed

lemma truthy_iff_non_null:
  assumes "\<forall>x\<in>set xs. x = None \<or> (\<exists>v. x = Some v \<and> (1::rat) \<le> v)"
  shows "list_ex truthy xs \<longleftrightarrow> \<not> (\<forall>x\<in>set xs. x = None)"
  using assms by (induction xs) (auto simp: truthy_def)

lemma floor_forty_thirds: "\<lfloor>40 / 3 :: rat\<rfloor> = 13"
  by (simp add: floor_unique)

lemma four_days_rounded_mean:
  "py_round (non_null_mean [None, Some 1, Some 1, Some 2]) 1 = 13 / 10"
  by (simp add: non_null_mean_def py_round_def Let_def floor_forty_thirds)

lemma empty_two_days_run:
  "get_study_analytics \<lparr>study_sessions = [], wellness_entries = []\<rparr> noon_2026_11_03 1 2 =
     Inr \<lparr>dates = [739921, 739922], study_hours = [0, 0],
          stress_levels = [None, None], energy_levels = [None, None],
          subject_labels = [], subject_data = [],
          total_study_hours = 0, avg_stress = None, avg_energy = None\<rparr>"
  by code_simp

text \<open>
  C1. For every \<open>days \<ge> 1\<close> whose window starts at a representable \<^verbatim>\<open>datetime\<close> (the
  start, \<open>days - 1\<close> days before now, is not before 0001-01-01) and every store,
  \<^verbatim>\<open>get_study_analytics\<close> returns, and its \<^verbatim>\<open>dates\<close>, \<^verbatim>\<open>study_hours\<close>, \<^verbatim>\<open>stress_levels\<close>
  and \<^verbatim>\<open>energy_levels\<close> each have exactly \<open>days\<close> entries. The dates are the calendar days
  from today - days + 1 up to today, ascending and without a gap. A day on which the user
  has no study session has 0 study hours, and a day on which the user has no wellness
  entry has null stress and null energy. For a larger \<open>days\<close> line 173 raises
  \<^verbatim>\<open>OverflowError\<close>.
\<close>

theorem analytics_series:
  assumes "1 \<le> days" and "valid_datetime now"
  shows "(timedelta (days - 1) \<le> now \<longrightarrow>
     (\<exists>r. get_study_analytics engine now uid days = Inr r
     \<and> length (dates r) = nat days
     \<and> length (study_hours r) = nat days
     \<and> length (stress_levels r) = nat days
     \<and> length (energy_levels r) = nat days
     \<and> dates r = [date now - days + 1 .. date now]
     \<and> (\<forall>i. Suc i < nat days \<longrightarrow> dates r ! Suc i = dates r ! i + 1)
     \<and> last (dates r) = date now
     \<and> (\<forall>i < nat days.
           (\<forall>s\<in>set (study_sessions engine). user_id s = uid \<longrightarrow> date (created_at s) \<noteq> dates r ! i)
           \<longrightarrow> study_hours r ! i = 0)
     \<and> (\<forall>i < nat days.
           (\<forall>w\<in>set (wellness_entries engine).
              wellness_user_id w = uid \<longrightarrow> date (wellness_created_at w) \<noteq> dates r ! i)
           \<longrightarrow> stress_levels r ! i = None \<and> energy_levels r ! i = None)))
   \<and> (now < timedelta (days - 1)
        \<longrightarrow> get_study_analytics engine now uid days = Inl OverflowError)"
proof (intro conjI impI)
  assume "now < timedelta (days - 1)"
  then show "get_study_analytics engine now uid days = Inl OverflowError"
    by (rule get_study_analytics_overflow)
next
  assume start: "timedelta (days - 1) \<le> now"
  let ?a = "now - timedelta (days - 1)"
  let ?ds = "map (\<lambda>i. date (now - timedelta (days - 1) + timedelta (int i))) [0..<nat days]"
  obtain r where f: "format_chart_data engine uid ?a now ?ds = Inr r"
    and ds: "dates r = ?ds"
    and hs: "study_hours r =
           map (\<lambda>d. case map_of (map (\<lambda>(d, total, sent). (d, (of_int total :: rat) / 60))
                       (daily_data engine uid ?a now)) d
                     of None \<Rightarrow> 0 | Some h \<Rightarrow> h) ?ds"
    and ss: "stress_levels r =
           map (\<lambda>d. case map_of (map (\<lambda>(d, st, en). (d, st)) (mood_data engine uid ?a now)) d
                     of None \<Rightarrow> None | Some v \<Rightarrow> v) ?ds"
    and es: "energy_levels r =
           map (\<lambda>d. case map_of (map (\<lambda>(d, st, en). (d, en)) (mood_data engine uid ?a now)) d
                     of None \<Rightarrow> None | Some v \<Rightarrow> v) ?ds"
    by (rule format_chart_data_fields)
  from f have r: "get_study_analytics engine now uid days = Inr r"
    by (simp add: get_study_analytics_in_range [OF assms start])
  have len: "length (dates r) = nat days"
    by (simp add: ds)
  have upto: "dates r = [date now - days + 1 .. date now]"
    using window_dates_upto [OF assms(1), of now] by (simp add: ds algebra_simps)
  have nth: "dates r ! i = date now - days + 1 + int i" if "i < nat days" for i
  proof -
    from that have "date now - days + 1 + int i \<le> date now" by linarith
    then show ?thesis unfolding upto by (rule nth_upto)
  qed
  have step: "\<forall>i. Suc i < nat days \<longrightarrow> dates r ! Suc i = dates r ! i + 1"
    by (simp add: nth)
  have "dates r \<noteq> []" using len assms(1) by auto
  then have "last (dates r) = dates r ! (nat days - 1)"
    by (simp add: last_conv_nth len)
  also have "\<dots> = date now" using assms(1) by (simp add: nth)
  finally have lst: "last (dates r) = date now" .
  have study: "\<forall>i < nat days.
           (\<forall>s\<in>set (study_sessions engine). user_id s = uid \<longrightarrow> date (created_at s) \<noteq> dates r ! i)
           \<longrightarrow> study_hours r ! i = 0"
  proof (intro allI impI)
    fix i
    assume i: "i < nat days"
      and none: "\<forall>s\<in>set (study_sessions engine). user_id s = uid \<longrightarrow> date (created_at s) \<noteq> dates r ! i"
    from i have "study_hours r ! i =
        (case map_of (map (\<lambda>(d, total, sent). (d, (of_int total :: rat) / 60))
                       (daily_data engine uid ?a now)) (?ds ! i)
                     of None \<Rightarrow> 0 | Some h \<Rightarrow> h)"
      by (subst hs) simp
    then show "study_hours r ! i = 0"
      using study_lookup_None [OF none] by (simp add: ds)
  qed
  have mood: "\<forall>i < nat days.
           (\<forall>w\<in>set (wellness_entries engine).
              wellness_user_id w = uid \<longrightarrow> date (wellness_created_at w) \<noteq> dates r ! i)
           \<longrightarrow> stress_levels r ! i = None \<and> energy_levels r ! i = None"
  proof (intro allI impI)
    fix i
    assume i: "i < nat days"
      and none: "\<forall>w\<in>set (wellness_entries engine).
              wellness_user_id w = uid \<longrightarrow> date (wellness_created_at w) \<noteq> dates r ! i"
    from i have "stress_levels r ! i =
        (case map_of (map (\<lambda>(d, st, en). (d, st)) (mood_data engine uid ?a now)) (?ds ! i)
                     of None \<Rightarrow> None | Some v \<Rightarrow> v)"
      by (subst ss) simp
    then have a: "stress_levels r ! i = None"
      using mood_lookup_None(1) [OF none] by (simp add: ds)
    from i have "energy_levels r ! i =
        (case map_of (map (\<lambda>(d, st, en). (d, en)) (mood_data engine uid ?a now)) (?ds ! i)
                     of None \<Rightarrow> None | Some v \<Rightarrow> v)"
      by (subst es) simp
    then have b: "energy_levels r ! i = None"
      using mood_lookup_None(2) [OF none] by (simp add: ds)
    from a b show "stress_levels r ! i = None \<and> energy_levels r ! i = None" by simp
  qed
  have lens: "length (study_hours r) = nat days" "length (stress_levels r) = nat days"
    "length (energy_levels r) = nat days"
    by (simp_all add: hs ss es)
  show "\<exists>r. get_study_analytics engine now uid days = Inr r
     \<and> length (dates r) = nat days
     \<and> length (study_hours r) = nat days
     \<and> length (stress_levels r) = nat days
     \<and> length (energy_levels r) = nat days
     \<and> dates r = [date now - days + 1 .. date now]
     \<and> (\<forall>i. Suc i < nat days \<longrightarrow> dates r ! Suc i = dates r ! i + 1)
     \<and> last (dates r) = date now
     \<and> (\<forall>i < nat days.
           (\<forall>s\<in>set (study_sessions engine). user_id s = uid \<longrightarrow> date (created_at s) \<noteq> dates r ! i)
           \<longrightarrow> study_hours r ! i = 0)
     \<and> (\<forall>i < nat days.
           (\<forall>w\<in>set (wellness_entries engine).
              wellness_user_id w = uid \<longrightarrow> date (wellness_created_at w) \<noteq> dates r ! i)
           \<longrightarrow> stress_levels r ! i = None \<and> energy_levels r ! i = None)"
    by (intro exI [of _ r] conjI) (fact r len lens upto step lst study mood)+
qed

theorem analytics_series_witness:
  "(1::int) \<le> 4 \<and> valid_datetime noon_of_day_twelve \<and> timedelta (4 - 1) \<le> noon_of_day_twelve
   \<and> (\<exists>r. get_study_analytics store_four_days noon_of_day_twelve 1 4 = Inr r
        \<and> length (dates r) = 4 \<and> length (study_hours r) = 4
        \<and> dates r = [9, 10, 11, 12] \<and> date noon_of_day_twelve = 12
        \<and> study_hours r = [0, 3 / 2, 0, 1 / 2]
        \<and> stress_levels r = [None, Some 1, Some 1, Some 2]
        \<and> energy_levels r = [None, Some 5, Some 5, Some 6])
   \<and> valid_datetime noon_2026_11_03 \<and> timedelta (2 - 1) \<le> noon_2026_11_03
   \<and> (\<exists>r. get_study_analytics \<lparr>study_sessions = [], wellness_entries = []\<rparr> noon_2026_11_03 1 2 = Inr r
        \<and> dates r = [739921, 739922] \<and> study_hours r = [0, 0]
        \<and> stress_levels r = [None, None] \<and> energy_levels r = [None, None])"
proof -
  have d: "date noon_of_day_twelve = 12"
    by (simp add: date_def noon_of_day_twelve_def usec_per_day_def)
  have d2: "date noon_2026_11_03 = 739922"
    by (simp add: date_def noon_2026_11_03_def usec_per_day_def)
  have v: "valid_datetime noon_of_day_twelve" "timedelta (4 - 1) \<le> noon_of_day_twelve"
    "valid_datetime noon_2026_11_03" "timedelta (2 - 1) \<le> noon_2026_11_03"
    by (simp_all add: valid_datetime_def datetime_max_def noon_of_day_twelve_def noon_2026_11_03_def
        timedelta_def usec_per_day_def)
  have one: "(1::int) \<le> 4" "(1::int) \<le> 2" by simp_all
  from analytics_series [OF one(1) v(1), of store_four_days 1] v(2)
  have a: "\<exists>r. get_study_analytics store_four_days noon_of_day_twelve 1 4 = Inr r
        \<and> length (dates r) = 4 \<and> length (study_hours r) = 4
        \<and> dates r = [9, 10, 11, 12] \<and> date noon_of_day_twelve = 12
        \<and> study_hours r = [0, 3 / 2, 0, 1 / 2]
        \<and> stress_levels r = [None, Some 1, Some 1, Some 2]
        \<and> energy_levels r = [None, Some 5, Some 5, Some 6]"
    by (simp add: four_days_run d)
  from analytics_series [OF one(2) v(3), of "\<lparr>study_sessions = [], wellness_entries = []\<rparr>" 1] v(4)
  have b: "\<exists>r. get_study_analytics \<lparr>study_sessions = [], wellness_entries = []\<rparr> noon_2026_11_03 1 2 = Inr r
        \<and> dates r = [739921, 739922] \<and> study_hours r = [0, 0]
        \<and> stress_levels r = [None, None] \<and> energy_levels r = [None, None]"
    by (simp add: empty_two_days_run d2)
  from one v a b show ?thesis by simp
qed

text \<open>
  C1 for every \<open>days \<ge> 1\<close> does not hold: on 2026-11-03 at noon a request for 1000000
  days raises \<^verbatim>\<open>OverflowError\<close> in line 173, the window start being before 0001-01-01.
\<close>

theorem analytics_days_overflow:
  "get_study_analytics store_four_days noon_2026_11_03 1 1000000 = Inl OverflowError"
  by (simp add: get_study_analytics_def Let_def then_err_def timedelta_days_def timedelta_def
      datetime_minus_def valid_datetime_def noon_2026_11_03_def usec_per_day_def)

text \<open>
  C2. For stress and energy levels on the documented scale (at least 1), in every result
  of \<^verbatim>\<open>get_study_analytics\<close> \<^verbatim>\<open>avg_stress\<close> is null if and only if every entry of
  \<^verbatim>\<open>stress_levels\<close> is null; otherwise it is the mean of the non-null entries only (null
  days do not count as zero), rounded to one decimal as \<^verbatim>\<open>round(..., 1)\<close> in utils.py 233
  does. The same holds for \<^verbatim>\<open>avg_energy\<close> and \<^verbatim>\<open>energy_levels\<close>. There is such a result
  whenever \<open>days \<ge> 1\<close> and the window starts at a representable \<^verbatim>\<open>datetime\<close>.
\<close>

theorem analytics_averages:
  assumes "\<forall>w\<in>set (wellness_entries engine). 1 \<le> stress_level w \<and> 1 \<le> energy_level w"
  shows "(\<forall>r. get_study_analytics engine now uid days = Inr r \<longrightarrow>
       (avg_stress r = None \<longleftrightarrow> (\<forall>x\<in>set (stress_levels r). x = None))
     \<and> (avg_stress r \<noteq> None
          \<longrightarrow> avg_stress r = Some (py_round (non_null_mean (stress_levels r)) 1))
     \<and> (avg_energy r = None \<longleftrightarrow> (\<forall>x\<in>set (energy_levels r). x = None))
     \<and> (avg_energy r \<noteq> None
          \<longrightarrow> avg_energy r = Some (py_round (non_null_mean (energy_levels r)) 1)))
   \<and> (1 \<le> days \<and> valid_datetime now \<and> timedelta (days - 1) \<le> now
        \<longrightarrow> (\<exists>r. get_study_analytics engine now uid days = Inr r))"
proof (intro conjI allI impI)
  assume "1 \<le> days \<and> valid_datetime now \<and> timedelta (days - 1) \<le> now"
  then have g: "get_study_analytics engine now uid days
           = format_chart_data engine uid (now - timedelta (days - 1)) now
               (map (\<lambda>i. date (now - timedelta (days - 1) + timedelta (int i))) [0..<nat days])"
    by (simp add: get_study_analytics_in_range)
  obtain r where "format_chart_data engine uid (now - timedelta (days - 1)) now
               (map (\<lambda>i. date (now - timedelta (days - 1) + timedelta (int i))) [0..<nat days]) = Inr r"
    by (rule format_chart_data_fields)
  with g show "\<exists>r. get_study_analytics engine now uid days = Inr r" by simp
next
  fix r
  assume "get_study_analytics engine now uid days = Inr r"
  then obtain ds where f: "format_chart_data engine uid (now - timedelta (days - 1)) now ds = Inr r"
    using get_study_analytics_result by blast
  let ?a = "now - timedelta (days - 1)"
  obtain r' where f': "format_chart_data engine uid ?a now ds = Inr r'"
    and ss': "stress_levels r' =
           map (\<lambda>d. case map_of (map (\<lambda>(d, st, en). (d, st)) (mood_data engine uid ?a now)) d
                     of None \<Rightarrow> None | Some v \<Rightarrow> v) ds"
    and es': "energy_levels r' =
           map (\<lambda>d. case map_of (map (\<lambda>(d, st, en). (d, en)) (mood_data engine uid ?a now)) d
                     of None \<Rightarrow> None | Some v \<Rightarrow> v) ds"
    and avs': "avg_stress r' = (if list_ex truthy (stress_levels r')
                         then Some (py_round (non_null_mean (stress_levels r')) 1) else None)"
    and ave': "avg_energy r' = (if list_ex truthy (energy_levels r')
                         then Some (py_round (non_null_mean (energy_levels r')) 1) else None)"
    by (rule format_chart_data_fields)
  from f f' have eq: "r' = r" by simp
  note ss = ss' [unfolded eq] and es = es' [unfolded eq]
    and avs = avs' [unfolded eq] and ave = ave' [unfolded eq]
  from assms have st: "\<forall>w\<in>set (wellness_entries engine). 1 \<le> stress_level w"
    and en: "\<forall>w\<in>set (wellness_entries engine). 1 \<le> energy_level w"
    by simp_all
  have oks: "\<forall>x\<in>set (stress_levels r). x = None \<or> (\<exists>v. x = Some v \<and> 1 \<le> v)"
  proof
    fix x assume "x \<in> set (stress_levels r)"
    then obtain d where x: "x = (case map_of (map (\<lambda>(d, st, en). (d, st))
                       (mood_data engine uid ?a now)) d
                     of None \<Rightarrow> None | Some v \<Rightarrow> v)"
      unfolding ss by auto
    show "x = None \<or> (\<exists>v. x = Some v \<and> 1 \<le> v)"
    proof (cases "map_of (map (\<lambda>(d, st, en). (d, st)) (mood_data engine uid ?a now)) d")
      case None
      with x show ?thesis by simp
    next
      case (Some y)
      with x have "x = y" by simp
      with stress_lookup_ok [OF st Some] show ?thesis by simp
    qed
  qed
  have oke: "\<forall>x\<in>set (energy_levels r). x = None \<or> (\<exists>v. x = Some v \<and> 1 \<le> v)"
  proof
    fix x assume "x \<in> set (energy_levels r)"
    then obtain d where x: "x = (case map_of (map (\<lambda>(d, st, en). (d, en))
                       (mood_data engine uid ?a now)) d
                     of None \<Rightarrow> None | Some v \<Rightarrow> v)"
      unfolding es by auto
    show "x = None \<or> (\<exists>v. x = Some v \<and> 1 \<le> v)"
    proof (cases "map_of (map (\<lambda>(d, st, en). (d, en)) (mood_data engine uid ?a now)) d")
      case None
      with x show ?thesis by simp
    next
      case (Some y)
      with x have "x = y" by simp
      with energy_lookup_ok [OF en Some] show ?thesis by simp
    qed
  qed
  show "avg_stress r = None \<longleftrightarrow> (\<forall>x\<in>set (stress_levels r). x = None)"
    using truthy_iff_non_null [OF oks] by (simp add: avs)
  show "avg_energy r = None \<longleftrightarrow> (\<forall>x\<in>set (energy_levels r). x = None)"
    using truthy_iff_non_null [OF oke] by (simp add: ave)
  assume "avg_stress r \<noteq> None"
  then show "avg_stress r = Some (py_round (non_null_mean (stress_levels r)) 1)"
    by (simp add: avs split: if_splits)
next
  fix r
  assume "get_study_analytics engine now uid days = Inr r"
  then obtain ds where f: "format_chart_data engine uid (now - timedelta (days - 1)) now ds = Inr r"
    using get_study_analytics_result by blast
  obtain r' where f': "format_chart_data engine uid (now - timedelta (days - 1)) now ds = Inr r'"
    and ave': "avg_energy r' = (if list_ex truthy (energy_levels r')
                         then Some (py_round (non_null_mean (energy_levels r')) 1) else None)"
    by (rule format_chart_data_fields)
  from f f' have eq: "r' = r" by simp
  assume "avg_energy r \<noteq> None"
  then show "avg_energy r = Some (py_round (non_null_mean (energy_levels r)) 1)"
    using ave' [unfolded eq] by (simp split: if_splits)
qed

theorem analytics_averages_witness:
  "list_all (\<lambda>w. 1 \<le> stress_level w \<and> 1 \<le> energy_level w) (wellness_entries store_four_days)
   \<and> (1::int) \<le> 4 \<and> valid_datetime noon_of_day_twelve \<and> timedelta (4 - 1) \<le> noon_of_day_twelve
   \<and> (\<exists>r. get_study_analytics store_four_days noon_of_day_twelve 1 4 = Inr r
        \<and> stress_levels r = [None, Some 1, Some 1, Some 2]
        \<and> avg_stress r = Some (13 / 10)
        \<and> avg_stress r = Some (py_round (non_null_mean (stress_levels r)) 1)
        \<and> \<not> (\<forall>x\<in>set (stress_levels r). x = None))"
proof -
  have h: "\<forall>w\<in>set (wellness_entries store_four_days). 1 \<le> stress_level w \<and> 1 \<le> energy_level w"
    by (simp add: store_four_days_def wellness_row_def)
  have v: "valid_datetime noon_of_day_twelve" "timedelta (4 - 1) \<le> noon_of_day_twelve"
    by (simp_all add: valid_datetime_def datetime_max_def noon_of_day_twelve_def
        timedelta_def usec_per_day_def)
  from analytics_averages [OF h, of noon_of_day_twelve 1 4] h v
  show ?thesis by (simp add: four_days_run four_days_rounded_mean list_all_iff del: One_nat_def)
qed

text \<open>
  C2 without the rounding does not hold: with daily stress averages null, 1, 1, 2 the
  mean of the non-null entries is 4/3 and \<^verbatim>\<open>avg_stress\<close> is 1.3.
\<close>

theorem avg_stress_is_rounded:
  "map_sum id avg_stress (get_study_analytics store_four_days noon_of_day_twelve 1 4)
     = Inr (Some (13 / 10))
   \<and> map_sum id (non_null_mean \<circ> stress_levels)
       (get_study_analytics store_four_days noon_of_day_twelve 1 4) = Inr (4 / 3)
   \<and> map_sum id avg_stress (get_study_analytics store_four_days noon_of_day_twelve 1 4)
     \<noteq> map_sum id (Some \<circ> non_null_mean \<circ> stress_levels)
         (get_study_analytics store_four_days noon_of_day_twelve 1 4)"
  by (simp add: four_days_run non_null_mean_def)

end
